theory Spec2Isabelle
  imports Main
begin

section \<open>JavaScript strings\<close>

text \<open>
  A JavaScript string is modelled as a \<^typ>\<open>string\<close>: the list of its code units, for
  code units below 256. The helpers below are the \<open>String.prototype\<close> methods that the
  parser module calls.
\<close>

definition isWhitespace :: "char \<Rightarrow> bool" where
  \<comment> \<open>the white space and line terminators that \<open>trim\<close> strips, among code units below 256:
      TAB, LF, VT, FF, CR, space and NBSP\<close>
  "isWhitespace c =
     (c = CHR 0x09 \<or> c = CHR 0x0A \<or> c = CHR 0x0B \<or> c = CHR 0x0C \<or> c = CHR 0x0D
      \<or> c = CHR 0x20 \<or> c = CHR 0xA0)"

definition trim :: "string \<Rightarrow> string" where
  "trim s = rev (dropWhile isWhitespace (rev (dropWhile isWhitespace s)))"

definition startsWith :: "string \<Rightarrow> string \<Rightarrow> bool" where
  "startsWith s p = (take (length p) s = p)"

definition endsWith :: "string \<Rightarrow> string \<Rightarrow> bool" where
  "endsWith s p = (length p \<le> length s \<and> drop (length s - length p) s = p)"

fun includesStr :: "string \<Rightarrow> string \<Rightarrow> bool" where
  "includesStr [] p = (p = [])"
| "includesStr (c # cs) p = (startsWith (c # cs) p \<or> includesStr cs p)"

definition substring :: "string \<Rightarrow> nat \<Rightarrow> string" where
  \<comment> \<open>\<open>s.substring(n)\<close>, one argument\<close>
  "substring s n = drop n s"

fun splitAcc :: "string \<Rightarrow> string \<Rightarrow> string list" where
  \<comment> \<open>the current line is accumulated in reverse\<close>
  "splitAcc acc [] = [rev acc]"
| "splitAcc acc (c # cs) =
     (if c = CHR 0x0A then rev acc # splitAcc [] cs else splitAcc (c # acc) cs)"

definition splitLines :: "string \<Rightarrow> string list" where
  \<comment> \<open>\<open>s.split("\\n")\<close>\<close>
  "splitLines s = splitAcc [] s"

fun joinLines :: "string list \<Rightarrow> string" where
  \<comment> \<open>\<open>xs.join("\\n")\<close>\<close>
  "joinLines [] = []"
| "joinLines [x] = x"
| "joinLines (x # y # ys) = x @ CHR 0x0A # joinLines (y # ys)"

definition slice :: "'a list \<Rightarrow> int \<Rightarrow> int \<Rightarrow> 'a list" where
  \<comment> \<open>\<open>xs.slice(start, end)\<close>: a negative index counts from the end, and both are clamped\<close>
  "slice xs start end =
     (let n = int (length xs);
          s = (if start < 0 then max (n + start) 0 else min start n);
          e = (if end < 0 then max (n + end) 0 else min end n)
      in take (nat (e - s)) (drop (nat s) xs))"

definition digitChar :: "nat \<Rightarrow> char" where
  \<comment> \<open>the digit of a number below ten\<close>
  "digitChar n = ''0123456789'' ! n"

fun showNat :: "nat \<Rightarrow> string" where
  \<comment> \<open>the decimal rendering of a non-negative integer inside a template literal\<close>
  "showNat n = (if n < 10 then [digitChar n] else showNat (n div 10) @ [digitChar (n mod 10)])"

declare showNat.simps [simp del]

section \<open>Grammar registry\<close>

datatype LanguageKey = Js | Ts | Python | Rust | Java | Go

definition SUPPORTED_LANGUAGES :: "(LanguageKey \<times> string list) list" where
  \<comment> \<open>the entries of the table in source order, each with its \<open>extensions\<close>; the grammar
      object \<open>parser\<close> of an entry belongs to the parsing library\<close>
  "SUPPORTED_LANGUAGES =
     [(Js, [''.js'', ''.jsx'']),
      (Ts, [''.ts'', ''.tsx'']),
      (Python, [''.py'']),
      (Rust, [''.rs'']),
      (Java, [''.java'']),
      (Go, [''.go''])]"

definition getLanguageForFile :: "(string \<Rightarrow> string) \<Rightarrow> string \<Rightarrow> LanguageKey option" where
  \<comment> \<open>\<open>extname\<close> stands for the platform's \<open>path.extname\<close>\<close>
  "getLanguageForFile extname filePath =
     (let ext = extname filePath
      in map_option fst (find (\<lambda>(_, extensions). ext \<in> set extensions) SUPPORTED_LANGUAGES))"

definition lastComponent :: "string \<Rightarrow> string" where
  \<comment> \<open>the last portion of a POSIX path, trailing separators ignored\<close>
  "lastComponent p =
     rev (takeWhile (\<lambda>c. c \<noteq> CHR ''/'') (dropWhile (\<lambda>c. c = CHR ''/'') (rev p)))"

definition posixExtname :: "string \<Rightarrow> string" where
  \<comment> \<open>\<open>path.extname\<close> on POSIX: from the last dot of the last portion of the path to its
      end; empty when there is no dot, when the only dot is the first character of that
      portion, and for the portion \<open>..\<close>\<close>
  "posixExtname p =
     (let comp = lastComponent p;
          ext = rev (takeWhile (\<lambda>c. c \<noteq> CHR ''.'') (rev comp));
          pre = take (length comp - length ext - 1) comp
      in if CHR ''.'' \<notin> set comp \<or> pre = [] \<or> comp = ''..'' then []
         else CHR ''.'' # ext)"

section \<open>Documentation classifier\<close>

record DocumentationValidation =
  isValid :: bool
  doc :: "string option"

definition tripleQuote :: string where
  "tripleQuote = [CHR 0x22, CHR 0x22, CHR 0x22]"

definition invalid :: DocumentationValidation where
  \<comment> \<open>the object \<open>{ isValid: false }\<close>\<close>
  "invalid = \<lparr>isValid = False, doc = None\<rparr>"

definition valid :: "string \<Rightarrow> DocumentationValidation" where
  \<comment> \<open>the object \<open>{ isValid: true, doc: trimmedComment }\<close>\<close>
  "valid trimmedComment = \<lparr>isValid = True, doc = Some trimmedComment\<rparr>"

fun isValidDocumentation :: "string \<Rightarrow> LanguageKey option \<Rightarrow> DocumentationValidation" where
  "isValidDocumentation commentText None = invalid"
| "isValidDocumentation commentText (Some language) =
     (if commentText = [] then invalid
      else let trimmedComment = trim commentText in
        case language of
          Js \<Rightarrow>
            if (startsWith trimmedComment ''/**'' \<and> endsWith trimmedComment ''*/'') \<or>
               (startsWith trimmedComment ''/*'' \<and> endsWith trimmedComment ''*/'')
            then valid trimmedComment else invalid
        | Ts \<Rightarrow>
            if (startsWith trimmedComment ''/**'' \<and> endsWith trimmedComment ''*/'') \<or>
               (startsWith trimmedComment ''/*'' \<and> endsWith trimmedComment ''*/'')
            then valid trimmedComment else invalid
        | Python \<Rightarrow>
            if includesStr commentText tripleQuote \<or> startsWith trimmedComment ''#''
            then valid trimmedComment else invalid
        | Rust \<Rightarrow>
            if includesStr commentText ''///'' \<or> includesStr commentText ''//!'' \<or>
               (includesStr commentText ''/*'' \<and> includesStr commentText ''*/'')
            then valid trimmedComment else invalid
        | Java \<Rightarrow>
            if startsWith trimmedComment ''/**'' \<or> startsWith trimmedComment ''/*'' \<or>
               startsWith trimmedComment ''//''
            then valid trimmedComment else invalid
        | Go \<Rightarrow>
            if startsWith trimmedComment ''//'' \<and> \<not> includesStr trimmedComment ''TODO'' \<and>
               length trimmedComment > 2 \<and> length (trim (substring trimmedComment 2)) > 0
            then valid trimmedComment else invalid)"

section \<open>Syntax trees and function records\<close>

record SyntaxNode =
  \<comment> \<open>what the module reads of a node of the parsing library: \<open>type\<close>, \<open>text\<close>,
      \<open>startPosition.row\<close> and \<open>endPosition.row\<close>\<close>
  nodeType :: string
  nodeText :: string
  startRow :: nat
  endRow :: nat

record QueryCapture =
  name :: string
  node :: SyntaxNode

type_synonym QueryMatch = "QueryCapture list"
  \<comment> \<open>\<open>match.captures\<close>\<close>

datatype jsValue =
    JNull
  | JBool bool
  | JNum int
  | JStr string
  | JArr "jsValue list"
  | JObj "(int \<times> int) option" "(string \<times> jsValue) list"
  \<comment> \<open>a value of the linter's tree. \<open>JNull\<close> is \<open>null\<close> or \<open>undefined\<close>. An object is
      its property \<open>loc\<close>, read as \<open>(loc.start.line, loc.end.line)\<close> and \<open>None\<close> when the
      object has none, and its other own properties in enumeration order.\<close>

datatype astNode = TreeNode SyntaxNode | EsNode jsValue

record Function =
  name :: string
  node :: astNode
  filePath :: string
  startLine :: int
  endLine :: int
  sourceCode :: string
  isDocumented :: bool
  cleanedDoc :: "string option"

record DocumentedFunction =
  name :: string
  documentation :: "string option"
  filePath :: string

section \<open>Tree extraction engine\<close>

record collectState =
  \<comment> \<open>the set \<open>processedFunctions\<close>, the array \<open>functions\<close> and the module's
      \<open>documentedFunctions\<close>\<close>
  processedFunctions :: "string set"
  functionsArr :: "Function list"
  documentedFunctions :: "DocumentedFunction list"

definition findCapture :: "string \<Rightarrow> QueryMatch \<Rightarrow> QueryCapture option" where
  \<comment> \<open>\<open>match.captures.find((capture) => capture.name === n)\<close>\<close>
  "findCapture n captures = find (\<lambda>capture. QueryCapture.name capture = n) captures"

definition docCaptures :: "QueryMatch \<Rightarrow> QueryCapture list" where
  \<comment> \<open>\<open>match.captures.filter((capture) => capture.name === "doc")\<close>\<close>
  "docCaptures m = filter (\<lambda>capture. QueryCapture.name capture = ''doc'') m"

definition funcKey :: "QueryCapture \<Rightarrow> QueryCapture \<Rightarrow> string" where
  "funcKey functionName functionNode =
     nodeText (QueryCapture.node functionName) @ ''-'' @
     showNat (startRow (QueryCapture.node functionNode))"

fun firstValid :: "QueryCapture list \<Rightarrow> LanguageKey option \<Rightarrow> DocumentationValidation" where
  \<comment> \<open>the loop over \<open>docNodes\<close>: the first valid documentation, the loop left at it\<close>
  "firstValid [] language = invalid"
| "firstValid (d # docNodes) language =
     (let validation = isValidDocumentation (nodeText (QueryCapture.node d)) language
      in if isValid validation then validation else firstValid docNodes language)"

definition sourceLines :: "string \<Rightarrow> int \<Rightarrow> int \<Rightarrow> string" where
  \<comment> \<open>\<open>sourceCode.split("\\n").slice(startLine, endLine + 1).join("\\n")\<close>\<close>
  "sourceLines code start end = joinLines (slice (splitLines code) start (end + 1))"

definition matchRecord ::
  "(string \<Rightarrow> string) \<Rightarrow> string \<Rightarrow> string \<Rightarrow> QueryMatch \<Rightarrow> QueryCapture \<Rightarrow> QueryCapture \<Rightarrow> Function"
where
  \<comment> \<open>the record pushed for a match with both captures\<close>
  "matchRecord extname path code m functionName functionNode =
     (let docNodes = docCaptures m;
          validation = firstValid docNodes (getLanguageForFile extname path);
          fnode = QueryCapture.node functionNode
      in \<lparr>Function.name = nodeText (QueryCapture.node functionName),
          node = TreeNode fnode,
          filePath = path,
          startLine = int (startRow fnode),
          endLine = int (endRow fnode),
          sourceCode = sourceLines code (int (startRow fnode)) (int (endRow fnode)),
          isDocumented = isValid validation,
          cleanedDoc = doc validation\<rparr>)"

definition matchEntry :: "Function \<Rightarrow> DocumentedFunction" where
  \<comment> \<open>the entry pushed at the first valid documentation\<close>
  "matchEntry f =
     \<lparr>DocumentedFunction.name = Function.name f,
      documentation = cleanedDoc f,
      filePath = Function.filePath f\<rparr>"

definition processMatch ::
  "(string \<Rightarrow> string) \<Rightarrow> string \<Rightarrow> string \<Rightarrow> collectState \<Rightarrow> QueryMatch \<Rightarrow> collectState"
where
  \<comment> \<open>the body of \<open>matches.forEach\<close>\<close>
  "processMatch extname path code st m =
     (case (findCapture ''function'' m, findCapture ''function_name'' m) of
        (Some functionNode, Some functionName) \<Rightarrow>
          if funcKey functionName functionNode \<in> processedFunctions st then st
          else
            let f = matchRecord extname path code m functionName functionNode
            in \<lparr>processedFunctions =
                  insert (funcKey functionName functionNode) (processedFunctions st),
                functionsArr = functionsArr st @ [f],
                documentedFunctions =
                  (if isDocumented f then documentedFunctions st @ [matchEntry f]
                   else documentedFunctions st)\<rparr>
      | _ \<Rightarrow> st)"

definition processMatchesAndCollect ::
  "(string \<Rightarrow> string) \<Rightarrow> QueryMatch list \<Rightarrow> string \<Rightarrow> string \<Rightarrow>
   Function list \<times> DocumentedFunction list \<Rightarrow> Function list \<times> DocumentedFunction list"
where
  \<comment> \<open>the array \<open>functions\<close> and the module's \<open>documentedFunctions\<close> go in and come out\<close>
  "processMatchesAndCollect extname matches path code arrays =
     (let st = foldl (processMatch extname path code)
                 \<lparr>processedFunctions = {}, functionsArr = fst arrays,
                  documentedFunctions = snd arrays\<rparr> matches
      in (functionsArr st, documentedFunctions st))"

section \<open>Fallback extraction engine\<close>

datatype jsError = Error string | TypeError
  \<comment> \<open>a thrown value: an error of a collaborator with its message, or the \<open>TypeError\<close> of a
      property read on \<open>undefined\<close>\<close>

record jsDoc =
  hasDoc :: bool
  docText :: "string option"

function scanUp :: "string list \<Rightarrow> int \<Rightarrow> string list \<Rightarrow> bool \<Rightarrow> jsError + string list" where
  \<comment> \<open>the \<open>while\<close> loop of \<open>getJSDocComment\<close>; its value is \<open>docLines\<close> after the loop.
      \<open>lines[currentLine]\<close> beyond the last line is \<open>undefined\<close>, and \<open>trim\<close> on it throws.\<close>
  "scanUp lines currentLine docLines insideComment =
     (if currentLine \<ge> 0 then
        if nat currentLine \<ge> length lines then Inl TypeError
        else
          let line = trim (lines ! nat currentLine) in
          if line = [] then scanUp lines (currentLine - 1) docLines insideComment
          else if startsWith line ''/**'' then Inr (line # docLines)
          else
            let docLines' =
                  (if insideComment \<or> startsWith line ''*'' \<or> startsWith line ''*/''
                   then line # docLines else docLines)
            in if \<not> startsWith line ''*'' \<and> \<not> startsWith line ''*/'' \<and> \<not> insideComment
               then Inr docLines'
               else scanUp lines (currentLine - 1) docLines' insideComment
      else Inr docLines)"
  by pat_completeness auto

termination
  by (relation "measure (\<lambda>(lines, currentLine, docLines, insideComment). nat (currentLine + 1))") auto

declare scanUp.simps [simp del]

definition getJSDocComment :: "(int \<times> int) option \<Rightarrow> string \<Rightarrow> jsError + jsDoc" where
  \<comment> \<open>the first argument is \<open>node.loc\<close>\<close>
  "getJSDocComment loc code =
     (case loc of
        None \<Rightarrow> Inr \<lparr>hasDoc = False, docText = None\<rparr>
      | Some (startL, endL) \<Rightarrow>
          let lines = splitLines code;
              functionStartLine = startL - 1;
              currentLine = functionStartLine - 1
          in case scanUp lines currentLine [] False of
               Inl e \<Rightarrow> Inl e
             | Inr docLines \<Rightarrow>
                 if length docLines > 0
                 then Inr \<lparr>hasDoc = True, docText = Some (joinLines docLines)\<rparr>
                 else Inr \<lparr>hasDoc = False, docText = None\<rparr>)"

fun getProp :: "jsValue \<Rightarrow> string \<Rightarrow> jsValue" where
  \<comment> \<open>\<open>v?.k\<close> for a property other than \<open>loc\<close>\<close>
  "getProp (JObj loc props) k = (case map_of props k of Some v \<Rightarrow> v | None \<Rightarrow> JNull)"
| "getProp v k = JNull"

fun truthy :: "jsValue \<Rightarrow> bool" where
  "truthy JNull = False"
| "truthy (JBool b) = b"
| "truthy (JNum n) = (n \<noteq> 0)"
| "truthy (JStr s) = (s \<noteq> [])"
| "truthy (JArr items) = True"
| "truthy (JObj loc props) = True"

fun isObject :: "jsValue \<Rightarrow> bool" where
  \<comment> \<open>\<open>v && typeof v === "object"\<close>\<close>
  "isObject (JArr items) = True"
| "isObject (JObj loc props) = True"
| "isObject v = False"

fun nameOf :: "jsValue \<Rightarrow> string option" where
  \<comment> \<open>a truthy \<open>name\<close>; the names of the linter's tree are strings\<close>
  "nameOf (JStr s) = (if s = [] then None else Some s)"
| "nameOf v = None"

definition idName :: "jsValue \<Rightarrow> string option" where
  "idName n = nameOf (getProp (getProp n ''id'') ''name'')"

definition keyName :: "jsValue \<Rightarrow> string option" where
  "keyName n = nameOf (getProp (getProp n ''key'') ''name'')"

definition isNamedFunction :: "jsValue \<Rightarrow> bool" where
  "isNamedFunction n =
     ((getProp n ''type'' = JStr ''FunctionDeclaration'' \<and> idName n \<noteq> None) \<or>
      (getProp n ''type'' = JStr ''MethodDefinition'' \<and> keyName n \<noteq> None) \<or>
      (getProp n ''type'' = JStr ''FunctionExpression'' \<and> idName n \<noteq> None) \<or>
      (getProp n ''type'' = JStr ''VariableDeclarator'' \<and> idName n \<noteq> None \<and>
       (getProp (getProp n ''init'') ''type'' = JStr ''ArrowFunctionExpression'' \<or>
        getProp (getProp n ''init'') ''type'' = JStr ''FunctionExpression'')))"

definition functionNameOf :: "jsValue \<Rightarrow> string option" where
  \<comment> \<open>\<open>node.id?.name || node.key?.name || (node.init ? node.id?.name : null)\<close>\<close>
  "functionNameOf n =
     (case idName n of
        Some x \<Rightarrow> Some x
      | None \<Rightarrow>
          (case keyName n of
             Some x \<Rightarrow> Some x
           | None \<Rightarrow> (if truthy (getProp n ''init'') then idName n else None)))"

definition nodeRecord :: "string \<Rightarrow> string \<Rightarrow> jsValue \<Rightarrow> string \<Rightarrow> int \<Rightarrow> int \<Rightarrow> jsDoc \<Rightarrow> Function" where
  "nodeRecord code path n functionName startL endL docResult =
     \<lparr>Function.name = functionName,
      node = EsNode n,
      filePath = path,
      startLine = startL,
      endLine = endL,
      sourceCode = sourceLines code startL endL,
      isDocumented = hasDoc docResult,
      cleanedDoc = docText docResult\<rparr>"

definition nodeEntry :: "string \<Rightarrow> string \<Rightarrow> jsDoc \<Rightarrow> DocumentedFunction" where
  "nodeEntry path functionName docResult =
     \<lparr>DocumentedFunction.name = functionName,
      documentation = docText docResult,
      filePath = path\<rparr>"

definition visitFunction ::
  "string \<Rightarrow> string \<Rightarrow> jsValue \<Rightarrow> (int \<times> int) option \<Rightarrow> string \<Rightarrow>
   Function list \<times> DocumentedFunction list \<Rightarrow>
   jsError option \<times> Function list \<times> DocumentedFunction list"
where
  \<comment> \<open>what \<open>traverse\<close> does with a named function, before it goes on to the children; the
      first component is the error thrown, if any. \<open>node.loc.start\<close> throws without \<open>loc\<close>.\<close>
  "visitFunction code path n loc functionName arrays =
     (case loc of
        None \<Rightarrow> (Some TypeError, arrays)
      | Some (startL, endL) \<Rightarrow>
          let startLine = startL - 1;
              endLine = endL - 1
          in case getJSDocComment loc code of
               Inl e \<Rightarrow> (Some e, arrays)
             | Inr docResult \<Rightarrow>
                 let isDocumented = hasDoc docResult;
                     documented =
                       (if isDocumented \<and> docText docResult \<noteq> None \<and> docText docResult \<noteq> Some []
                        then snd arrays @ [nodeEntry path functionName docResult]
                        else snd arrays)
                 in (None,
                     fst arrays @ [nodeRecord code path n functionName startLine endLine docResult],
                     documented))"

fun traverse ::
  "string \<Rightarrow> string \<Rightarrow> jsValue \<Rightarrow> Function list \<times> DocumentedFunction list \<Rightarrow>
   jsError option \<times> Function list \<times> DocumentedFunction list"
and traverseProps ::
  "string \<Rightarrow> string \<Rightarrow> (string \<times> jsValue) list \<Rightarrow> Function list \<times> DocumentedFunction list \<Rightarrow>
   jsError option \<times> Function list \<times> DocumentedFunction list"
and traverseItems ::
  "string \<Rightarrow> string \<Rightarrow> jsValue list \<Rightarrow> Function list \<times> DocumentedFunction list \<Rightarrow>
   jsError option \<times> Function list \<times> DocumentedFunction list"
where
  \<comment> \<open>\<open>traverse\<close> on a node, and its loop over the properties of an object and over the
      elements of an array; the first component of the result is the error thrown, if
      any. The walk into the location object of a node meets no node type and no
      location, and is left out.\<close>
  "traverse code path (JObj loc props) arrays =
     (if isNamedFunction (JObj loc props) then
        (case functionNameOf (JObj loc props) of
           None \<Rightarrow> (None, arrays)
         | Some functionName \<Rightarrow>
             (case visitFunction code path (JObj loc props) loc functionName arrays of
                (Some e, arrays') \<Rightarrow> (Some e, arrays')
              | (None, arrays') \<Rightarrow> traverseProps code path props arrays'))
      else traverseProps code path props arrays)"
| "traverse code path (JArr items) arrays = traverseItems code path items arrays"
| "traverse code path JNull arrays = (None, arrays)"
| "traverse code path (JBool b) arrays = (None, arrays)"
| "traverse code path (JNum n) arrays = (None, arrays)"
| "traverse code path (JStr s) arrays = (None, arrays)"
| "traverseProps code path [] arrays = (None, arrays)"
| "traverseProps code path ((k, v) # props) arrays =
     (if isObject v then
        (case traverse code path v arrays of
           (Some e, arrays') \<Rightarrow> (Some e, arrays')
         | (None, arrays') \<Rightarrow> traverseProps code path props arrays')
      else traverseProps code path props arrays)"
| "traverseItems code path [] arrays = (None, arrays)"
| "traverseItems code path (v # items) arrays =
     (if isObject v then
        (case traverse code path v arrays of
           (Some e, arrays') \<Rightarrow> (Some e, arrays')
         | (None, arrays') \<Rightarrow> traverseItems code path items arrays')
      else traverseItems code path items arrays)"

definition processJavaScriptAST ::
  "jsValue \<Rightarrow> string \<Rightarrow> string \<Rightarrow> Function list \<times> DocumentedFunction list \<Rightarrow>
   jsError option \<times> Function list \<times> DocumentedFunction list"
where
  \<comment> \<open>the lint messages are passed and never read\<close>
  "processJavaScriptAST ast code path arrays = traverse code path ast arrays"

section \<open>Function-pattern catalog\<close>

record queryPattern =
  \<comment> \<open>one alternative of a language's query: the node type it captures as \<open>@doc\<close>, if it
      captures one, and the node types it captures as \<open>@function\<close>\<close>
  docType :: "string option"
  functionTypes :: "string list"

fun getFunctionQuery :: "LanguageKey \<Rightarrow> queryPattern list" where
  \<comment> \<open>the query of a language, as the list of the alternatives of its text, in order\<close>
  "getFunctionQuery Js =
     [\<lparr>docType = Some ''comment'',
       functionTypes = [''function_declaration'', ''export_statement'', ''variable_declarator'']\<rparr>,
      \<lparr>docType = None,
       functionTypes = [''function_declaration'', ''export_statement'', ''variable_declarator'']\<rparr>]"
| "getFunctionQuery Ts =
     [\<lparr>docType = Some ''comment'',
       functionTypes = [''function_declaration'', ''export_statement'', ''variable_declarator'']\<rparr>,
      \<lparr>docType = None,
       functionTypes = [''function_declaration'', ''export_statement'', ''variable_declarator'']\<rparr>]"
| "getFunctionQuery Java =
     [\<lparr>docType = Some ''block_comment'', functionTypes = [''method_declaration'']\<rparr>,
      \<lparr>docType = Some ''block_comment'', functionTypes = [''constructor_declaration'']\<rparr>,
      \<lparr>docType = None, functionTypes = [''method_declaration'']\<rparr>,
      \<lparr>docType = None, functionTypes = [''constructor_declaration'']\<rparr>]"
| "getFunctionQuery Python =
     [\<lparr>docType = Some ''string'', functionTypes = [''function_definition'']\<rparr>,
      \<lparr>docType = Some ''string'', functionTypes = [''function_definition'']\<rparr>,
      \<lparr>docType = None, functionTypes = [''function_definition'']\<rparr>,
      \<lparr>docType = None, functionTypes = [''function_definition'']\<rparr>]"
| "getFunctionQuery Rust =
     [\<lparr>docType = Some ''line_comment'', functionTypes = [''function_item'']\<rparr>,
      \<lparr>docType = None, functionTypes = [''function_item'']\<rparr>]"
| "getFunctionQuery Go =
     [\<lparr>docType = Some ''comment'',
       functionTypes = [''function_declaration'', ''method_declaration'']\<rparr>,
      \<lparr>docType = None,
       functionTypes = [''function_declaration'', ''method_declaration'']\<rparr>]"

definition matchesPattern :: "queryPattern \<Rightarrow> QueryMatch \<Rightarrow> bool" where
  \<comment> \<open>a match of the alternative: its \<open>@doc\<close> captures are nodes of the alternative's
      documentation type, and its \<open>@function\<close> capture is a node of one of its function types\<close>
  "matchesPattern p m =
     (list_all (\<lambda>c. Some (nodeType (QueryCapture.node c)) = docType p) (docCaptures m) \<and>
      list_all (\<lambda>c. nodeType (QueryCapture.node c) \<in> set (functionTypes p))
        (filter (\<lambda>capture. QueryCapture.name capture = ''function'') m))"

definition producedBy :: "LanguageKey \<Rightarrow> QueryMatch \<Rightarrow> bool" where
  "producedBy language m = list_ex (\<lambda>p. matchesPattern p m) (getFunctionQuery language)"

section \<open>Per-file processing and the scan of the files\<close>

datatype logEntry =
    Scanning string
  | ErrorProcessing string jsError
  | Success string
  | ParserError jsError
  \<comment> \<open>the console lines: \<open>Scanning\<close> and \<open>Error processing\<close> with the relative path (the
      second with the error whose message it prints), the success mark with a function's
      name, and \<open>Parser error\<close>\<close>

record env =
  \<comment> \<open>the collaborators: \<open>path.extname\<close>; \<open>path.relative\<close> from the working directory;
      \<open>fs.readFileSync\<close>; the parsing library (\<open>setLanguage\<close>, \<open>parse\<close>, the query built from
      \<open>getFunctionQuery\<close>, and \<open>matches\<close>: the matches, or the first error thrown); the
      construction of the linter, with the error it throws, if any; \<open>lintText\<close>, with
      whether \<open>results[0]?.messages\<close> is there; the linter's parser; and \<open>generateDocs\<close>,
      with the entries it returns\<close>
  extname :: "string \<Rightarrow> string"
  relative :: "string \<Rightarrow> string"
  readFileSync :: "string \<Rightarrow> jsError + string"
  queryMatches :: "LanguageKey \<Rightarrow> string \<Rightarrow> jsError + QueryMatch list"
  newESLint :: "jsError option"
  lintText :: "string \<Rightarrow> string \<Rightarrow> jsError + bool"
  parseJavaScriptAST :: "string \<Rightarrow> string \<Rightarrow> jsError + jsValue"
  generateDocs :: "Function list \<Rightarrow> DocumentedFunction list"

record runState =
  \<comment> \<open>the module's array \<open>documentedFunctions\<close> and the console\<close>
  documented :: "DocumentedFunction list"
  console :: "logEntry list"





section \<open>Notions used in the properties\<close>

definition recKey :: "Function \<Rightarrow> string" where
  \<comment> \<open>the key of \<open>processedFunctions\<close> that belongs to an emitted record\<close>
  "recKey f = Function.name f @ ''-'' @ showNat (nat (startLine f))"

definition collectInv :: "collectState \<Rightarrow> bool" where
  \<comment> \<open>the emitted records have pairwise different keys, all of them in the set\<close>
  "collectInv st =
     (distinct (map recKey (functionsArr st)) \<and>
      recKey ` set (functionsArr st) \<subseteq> processedFunctions st)"

definition matchOf :: "string \<Rightarrow> int \<Rightarrow> QueryMatch \<Rightarrow> bool" where
  \<comment> \<open>a match with both captures, of the function with this name starting at this line\<close>
  "matchOf n l m =
     (case (findCapture ''function'' m, findCapture ''function_name'' m) of
        (Some functionNode, Some functionName) \<Rightarrow>
          nodeText (QueryCapture.node functionName) = n \<and>
          int (startRow (QueryCapture.node functionNode)) = l
      | _ \<Rightarrow> False)"

definition appended ::
  "Function list \<times> DocumentedFunction list \<Rightarrow> Function list \<times> DocumentedFunction list \<Rightarrow> bool" where
  \<comment> \<open>the second pair of arrays is the first with records appended, and with one entry
      appended for each appended record that is documented, in the same order\<close>
  "appended a b =
     (\<exists>new. fst b = fst a @ new \<and> snd b = snd a @ map matchEntry (filter isDocumented new))"

definition shiftArrays ::
  "Function list \<times> DocumentedFunction list \<Rightarrow>
   jsError option \<times> Function list \<times> DocumentedFunction list \<Rightarrow>
   jsError option \<times> Function list \<times> DocumentedFunction list" where
  \<comment> \<open>a result computed from empty arrays, put behind the arrays \<open>a\<close>\<close>
  "shiftArrays a r = (fst r, fst a @ fst (snd r), snd a @ snd (snd r))"

definition specAccepts :: "LanguageKey \<Rightarrow> string \<Rightarrow> bool" where
  \<comment> \<open>the acceptance rule of each language as the specification of the classifier words
      it, on the raw text of a comment: for the ECMAScript family a block-comment opener at
      the start and a closer at the end of the trimmed text; for Java a doc-block, block
      or line-comment opener at its start; for Python three double quotes in the raw text
      or \<open>#\<close> at the start of the trimmed text; for Rust \<open>///\<close>, \<open>//!\<close> or a block-comment
      pair in the raw text; for Go the line-comment marker at the start of the trimmed
      text, no \<open>TODO\<close>, a length above 2 and a character that is not white space after
      the marker\<close>
  "specAccepts language commentText =
     (case language of
        Js \<Rightarrow> startsWith (trim commentText) ''/*'' \<and> endsWith (trim commentText) ''*/''
      | Ts \<Rightarrow> startsWith (trim commentText) ''/*'' \<and> endsWith (trim commentText) ''*/''
      | Java \<Rightarrow>
          startsWith (trim commentText) ''/**'' \<or> startsWith (trim commentText) ''/*'' \<or>
          startsWith (trim commentText) ''//''
      | Python \<Rightarrow> includesStr commentText tripleQuote \<or> startsWith (trim commentText) ''#''
      | Rust \<Rightarrow>
          includesStr commentText ''///'' \<or> includesStr commentText ''//!'' \<or>
          (includesStr commentText ''/*'' \<and> includesStr commentText ''*/'')
      | Go \<Rightarrow>
          startsWith (trim commentText) ''//'' \<and> \<not> includesStr (trim commentText) ''TODO'' \<and>
          length (trim commentText) > 2 \<and>
          list_ex (\<lambda>c. \<not> isWhitespace c) (substring (trim commentText) 2))"







definition extend :: "runState \<Rightarrow> (jsError + Function list) \<times> runState \<Rightarrow> (jsError + Function list) \<times> runState" where
  \<comment> \<open>the result of a per-file run on its own, put behind the state \<open>st\<close>\<close>
  "extend st r =
     (fst r, st\<lparr>documented := documented st @ documented (snd r),
                console := console st @ console (snd r)\<rparr>)"

section \<open>Example inputs\<close>

definition capture :: "string \<Rightarrow> string \<Rightarrow> string \<Rightarrow> nat \<Rightarrow> nat \<Rightarrow> QueryCapture" where
  \<comment> \<open>a capture: its name, and the type, text, first and last row of its node\<close>
  "capture n ty txt r1 r2 =
     \<lparr>QueryCapture.name = n,
      node = \<lparr>nodeType = ty, nodeText = txt, startRow = r1, endRow = r2\<rparr>\<rparr>"

definition quoted :: "string \<Rightarrow> string" where
  \<comment> \<open>a string literal in double quotes\<close>
  "quoted s = CHR 0x22 # s @ [CHR 0x22]"

definition pythonSource :: "string \<Rightarrow> string" where
  \<comment> \<open>a function whose first statement is the string literal \<open>docstring\<close>\<close>
  "pythonSource docstring =
     joinLines [''def add(a, b):'', ''    '' @ docstring, ''    return a + b'']"

definition pythonMatches :: "string \<Rightarrow> QueryMatch list" where
  \<comment> \<open>the match of that function by the alternative with documentation\<close>
  "pythonMatches docstring =
     [[capture ''function'' ''function_definition'' (pythonSource docstring) 0 2,
       capture ''function_name'' ''identifier'' ''add'' 0 0,
       capture ''doc'' ''string'' docstring 1 1]]"

definition identNode :: "int \<Rightarrow> string \<Rightarrow> jsValue" where
  "identNode line n = JObj (Some (line, line)) [(''type'', JStr ''Identifier''), (''name'', JStr n)]"

definition emptyBlock :: "int \<Rightarrow> jsValue" where
  "emptyBlock line =
     JObj (Some (line, line)) [(''type'', JStr ''BlockStatement''), (''body'', JArr [])]"

definition namedExprSource :: string where
  "namedExprSource = ''const f = function f() {}''"

definition namedExprAst :: jsValue where
  \<comment> \<open>the tree of \<open>namedExprSource\<close>: a declarator whose initializer is a function
      expression of the same name\<close>
  "namedExprAst =
     JObj (Some (1, 1))
       [(''type'', JStr ''Program''),
        (''body'', JArr
           [JObj (Some (1, 1))
              [(''type'', JStr ''VariableDeclaration''),
               (''declarations'', JArr
                  [JObj (Some (1, 1))
                     [(''type'', JStr ''VariableDeclarator''),
                      (''id'', identNode 1 ''f''),
                      (''init'',
                       JObj (Some (1, 1))
                         [(''type'', JStr ''FunctionExpression''),
                          (''id'', identNode 1 ''f''),
                          (''params'', JArr []),
                          (''body'', emptyBlock 1)])]]),
               (''kind'', JStr ''const'')]])]"

definition doubleLines :: "string list" where
  "doubleLines =
     ['''', ''/**'', '' * Doubles x'', '' */'', ''function double(x) { return x*2 }'']"

definition doubleAst :: jsValue where
  \<comment> \<open>the tree of those lines: the function declaration on line 5\<close>
  "doubleAst =
     JObj (Some (1, 5))
       [(''type'', JStr ''Program''),
        (''body'', JArr
           [JObj (Some (5, 5))
              [(''type'', JStr ''FunctionDeclaration''),
               (''id'', identNode 5 ''double''),
               (''params'', JArr [identNode 5 ''x'']),
               (''body'', emptyBlock 5)]])]"

definition productLines :: "string list" where
  \<comment> \<open>a function below the continuation line of a product\<close>
  "productLines = [''const y = x'', ''  * 2'', ''function f() {}'']"

definition plainBlockLines :: "string list" where
  \<comment> \<open>a function below a block comment that is not a doc block\<close>
  "plainBlockLines = [''/*'', '' * plain'', '' */'', ''function f() {}'']"

definition javaSiblingSource :: string where
  \<comment> \<open>a documented method, then a method below a line comment\<close>
  "javaSiblingSource =
     joinLines
       [''class Util {'',
        ''  /** Adds one. */'',
        ''  int inc(int x) { return x + 1; }'',
        ''  // Doubles x.'',
        ''  int twice(int x) { return 2 * x; }'',
        ''}'']"

definition javaSiblingMatches :: "QueryMatch list" where
  \<comment> \<open>the matches of the Java query on that source: the block comment with the method
      below it, and the same block comment with the later sibling \<open>twice\<close>\<close>
  "javaSiblingMatches =
     [[capture ''doc'' ''block_comment'' ''/** Adds one. */'' 1 1,
       capture ''function'' ''method_declaration'' ''int inc(int x) { return x + 1; }'' 2 2,
       capture ''function_name'' ''identifier'' ''inc'' 2 2],
      [capture ''doc'' ''block_comment'' ''/** Adds one. */'' 1 1,
       capture ''function'' ''method_declaration'' ''int twice(int x) { return 2 * x; }'' 4 4,
       capture ''function_name'' ''identifier'' ''twice'' 4 4]]"

definition lateString :: string where
  \<comment> \<open>a string literal in triple double quotes\<close>
  "lateString = tripleQuote @ ''Not a docstring.'' @ tripleQuote"

definition lateStringSource :: string where
  \<comment> \<open>a function without a docstring, whose third statement is a string literal\<close>
  "lateStringSource =
     joinLines
       [''def add(a, b):'',
        ''    total = a + b'',
        ''    '' @ lateString,
        ''    return total'']"

definition lateStringMatches :: "QueryMatch list" where
  \<comment> \<open>the match of the Python query on that source: the function with the string
      literal of its body\<close>
  "lateStringMatches =
     [[capture ''function'' ''function_definition'' lateStringSource 0 3,
       capture ''function_name'' ''identifier'' ''add'' 0 0,
       capture ''doc'' ''string'' lateString 2 2]]"

definition jsdocExprSource :: string where
  "jsdocExprSource = joinLines [''/** Does f. */'', ''const f = function f() {}'']"

definition jsdocExprAst :: jsValue where
  \<comment> \<open>the tree of \<open>jsdocExprSource\<close>: the declarator and its function expression, both
      named \<open>f\<close>, on line 2\<close>
  "jsdocExprAst =
     JObj (Some (2, 2))
       [(''type'', JStr ''Program''),
        (''body'', JArr
           [JObj (Some (2, 2))
              [(''type'', JStr ''VariableDeclaration''),
               (''declarations'', JArr
                  [JObj (Some (2, 2))
                     [(''type'', JStr ''VariableDeclarator''),
                      (''id'', identNode 2 ''f''),
                      (''init'',
                       JObj (Some (2, 2))
                         [(''type'', JStr ''FunctionExpression''),
                          (''id'', identNode 2 ''f''),
                          (''params'', JArr []),
                          (''body'', emptyBlock 2)])]]),
               (''kind'', JStr ''const'')]])]"








section \<open>Properties of the documentation classifier\<close>

lemma all_dropWhile: "(\<forall>x\<in>set (dropWhile P s). P x) = (\<forall>x\<in>set s. P x)"
  by (induction s) auto

lemma trim_Nil_iff: "trim s = [] \<longleftrightarrow> list_all isWhitespace s"
  unfolding trim_def by (simp add: dropWhile_eq_Nil_conv list_all_iff all_dropWhile)

lemma trim_empty: "trim [] = []"
  by (simp add: trim_def)

text \<open>
  Claim C3. For Go, a comment is accepted exactly when its trimmed text starts with
  \<open>//\<close>, does not contain \<open>TODO\<close>, is longer than 2, and has a character that is not
  white space after the marker; the cleaned text of an accepted comment is the trimmed
  text. \<open>// TODO: fix this\<close> is rejected and \<open>// Computes the sum of two integers.\<close> is
  accepted with the trimmed input as its cleaned text.
\<close>

theorem go_classification:
  "isValid (isValidDocumentation commentText (Some Go)) =
     (startsWith (trim commentText) ''//'' \<and> \<not> includesStr (trim commentText) ''TODO'' \<and>
      length (trim commentText) > 2 \<and>
      list_ex (\<lambda>c. \<not> isWhitespace c) (substring (trim commentText) 2)) \<and>
   doc (isValidDocumentation commentText (Some Go)) =
     (if isValid (isValidDocumentation commentText (Some Go)) then Some (trim commentText) else None) \<and>
   isValidDocumentation ''// TODO: fix this'' (Some Go) = \<lparr>isValid = False, doc = None\<rparr> \<and>
   isValidDocumentation ''// Computes the sum of two integers.'' (Some Go) =
     \<lparr>isValid = True, doc = Some (trim ''// Computes the sum of two integers.'')\<rparr>"
proof -
  have ne: "(trim s \<noteq> []) = list_ex (\<lambda>c. \<not> isWhitespace c) s" for s
    by (simp add: trim_Nil_iff list_all_iff list_ex_iff)
  have a: "isValid (isValidDocumentation commentText (Some Go)) =
     (startsWith (trim commentText) ''//'' \<and> \<not> includesStr (trim commentText) ''TODO'' \<and>
      length (trim commentText) > 2 \<and>
      list_ex (\<lambda>c. \<not> isWhitespace c) (substring (trim commentText) 2))"
    by (cases "commentText = []")
       (simp_all add: valid_def invalid_def Let_def trim_empty startsWith_def ne [symmetric])
  have b: "doc (isValidDocumentation commentText (Some Go)) =
     (if isValid (isValidDocumentation commentText (Some Go)) then Some (trim commentText) else None)"
    by (simp add: valid_def invalid_def Let_def)
  have c: "isValidDocumentation ''// TODO: fix this'' (Some Go) = \<lparr>isValid = False, doc = None\<rparr>"
    by code_simp
  have d: "isValidDocumentation ''// Computes the sum of two integers.'' (Some Go) =
     \<lparr>isValid = True, doc = Some (trim ''// Computes the sum of two integers.'')\<rparr>"
    by code_simp
  from a b c d show ?thesis by blast
qed

lemma startsWith_docblock:
  assumes "startsWith s ''/**''"
  shows "startsWith s ''/*''"
proof (cases s)
  case Nil
  with assms show ?thesis by (simp add: startsWith_def)
next
  case (Cons a s1)
  show ?thesis
  proof (cases s1)
    case Nil
    with assms Cons show ?thesis by (simp add: startsWith_def)
  next
    case (Cons b s2)
    with assms \<open>s = a # s1\<close> show ?thesis by (simp add: startsWith_def)
  qed
qed

text \<open>
  Claim C8. The classifier decides every comment text and language, and no branch of it
  raises: without a language, and for the empty text, the result is the invalid one; for
  a language and a text that is not empty the result is the valid one, carrying the
  trimmed text, exactly when the text passes the rule of that language, and the invalid
  one when it fails it.
\<close>

theorem classify_decides:
  "isValidDocumentation commentText language =
     (case language of
        None \<Rightarrow> \<lparr>isValid = False, doc = None\<rparr>
      | Some l \<Rightarrow>
          if commentText \<noteq> [] \<and> specAccepts l commentText
          then \<lparr>isValid = True, doc = Some (trim commentText)\<rparr>
          else \<lparr>isValid = False, doc = None\<rparr>)"
proof (cases language)
  case None
  then show ?thesis by (simp add: invalid_def)
next
  case (Some l)
  have ne: "(trim s \<noteq> []) = list_ex (\<lambda>c. \<not> isWhitespace c) s" for s
    by (simp add: trim_Nil_iff list_all_iff list_ex_iff)
  show ?thesis
  proof (cases l)
    case Js
    with Some show ?thesis
      using startsWith_docblock [of "trim commentText"]
      by (auto simp: specAccepts_def invalid_def valid_def Let_def)
  next
    case Ts
    with Some show ?thesis
      using startsWith_docblock [of "trim commentText"]
      by (auto simp: specAccepts_def invalid_def valid_def Let_def)
  next
    case Go
    with Some show ?thesis
      by (simp add: specAccepts_def invalid_def valid_def Let_def ne [symmetric])
  qed (use Some in \<open>simp_all add: specAccepts_def invalid_def valid_def Let_def\<close>)
qed

theorem classify_decides_witness:
  "isValidDocumentation ''// Adds two numbers.'' (Some Js) = \<lparr>isValid = False, doc = None\<rparr> \<and>
   isValidDocumentation ''/** Adds two numbers. */'' (Some Ts) =
     \<lparr>isValid = True, doc = Some ''/** Adds two numbers. */''\<rparr> \<and>
   isValidDocumentation ''# note'' (Some Java) = \<lparr>isValid = False, doc = None\<rparr> \<and>
   isValidDocumentation ''/* note */'' (Some Python) = \<lparr>isValid = False, doc = None\<rparr> \<and>
   isValidDocumentation ''// note'' (Some Rust) = \<lparr>isValid = False, doc = None\<rparr> \<and>
   isValidDocumentation ''//   '' (Some Go) = \<lparr>isValid = False, doc = None\<rparr> \<and>
   isValidDocumentation [] (Some Java) = \<lparr>isValid = False, doc = None\<rparr> \<and>
   isValidDocumentation ''/** Adds two numbers. */'' None = \<lparr>isValid = False, doc = None\<rparr>"
proof -
  have a: "\<not> specAccepts Js ''// Adds two numbers.''" by code_simp
  have b: "specAccepts Ts ''/** Adds two numbers. */'' \<and>
           trim ''/** Adds two numbers. */'' = ''/** Adds two numbers. */''" by code_simp
  have c: "\<not> specAccepts Java ''# note''" by code_simp
  have d: "\<not> specAccepts Python ''/* note */''" by code_simp
  have e: "\<not> specAccepts Rust ''// note''" by code_simp
  have f: "\<not> specAccepts Go ''//   ''" by code_simp
  show ?thesis
    using classify_decides [of "''// Adds two numbers.''" "Some Js"]
      classify_decides [of "''/** Adds two numbers. */''" "Some Ts"]
      classify_decides [of "''# note''" "Some Java"]
      classify_decides [of "''/* note */''" "Some Python"]
      classify_decides [of "''// note''" "Some Rust"]
      classify_decides [of "''//   ''" "Some Go"]
      classify_decides [of "[]" "Some Java"]
      classify_decides [of "''/** Adds two numbers. */''" None]
      a b c d e f
    by simp
qed

section \<open>Properties of the grammar registry\<close>

text \<open>
  Claim C9, as amended. The registry has exactly six language tags, in this order:
  \<open>js\<close>, \<open>ts\<close>, \<open>python\<close>, \<open>rust\<close>, \<open>java\<close>, \<open>go\<close>. The tag of a file is read off
  a fixed table from its extension, compared as it is written, and a file whose
  extension is in no entry has no tag, which is a result and not an error: an upper-case
  extension, an unknown extension and a missing extension all give none.
\<close>

theorem registry_table:
  "map fst SUPPORTED_LANGUAGES = [Js, Ts, Python, Rust, Java, Go] \<and>
   (UNIV :: LanguageKey set) = set (map fst SUPPORTED_LANGUAGES) \<and>
   getLanguageForFile extn path =
     (if extn path = ''.js'' \<or> extn path = ''.jsx'' then Some Js
      else if extn path = ''.ts'' \<or> extn path = ''.tsx'' then Some Ts
      else if extn path = ''.py'' then Some Python
      else if extn path = ''.rs'' then Some Rust
      else if extn path = ''.java'' then Some Java
      else if extn path = ''.go'' then Some Go
      else None) \<and>
   getLanguageForFile posixExtname ''/src/App.JS'' = None \<and>
   getLanguageForFile posixExtname ''/src/notes.txt'' = None \<and>
   getLanguageForFile posixExtname ''/src/Makefile'' = None"
proof -
  have u: "(UNIV :: LanguageKey set) = set (map fst SUPPORTED_LANGUAGES)"
  proof -
    have "x \<in> set (map fst SUPPORTED_LANGUAGES)" for x
      by (cases x) (simp_all add: SUPPORTED_LANGUAGES_def)
    then show ?thesis by blast
  qed
  have t: "getLanguageForFile extn path =
     (if extn path = ''.js'' \<or> extn path = ''.jsx'' then Some Js
      else if extn path = ''.ts'' \<or> extn path = ''.tsx'' then Some Ts
      else if extn path = ''.py'' then Some Python
      else if extn path = ''.rs'' then Some Rust
      else if extn path = ''.java'' then Some Java
      else if extn path = ''.go'' then Some Go
      else None)"
    by (simp add: getLanguageForFile_def SUPPORTED_LANGUAGES_def Let_def)
  have c1: "getLanguageForFile posixExtname ''/src/App.JS'' = None" by code_simp
  have c2: "getLanguageForFile posixExtname ''/src/notes.txt'' = None" by code_simp
  have c3: "getLanguageForFile posixExtname ''/src/Makefile'' = None" by code_simp
  show ?thesis using u t c1 c2 c3 by (simp add: SUPPORTED_LANGUAGES_def)
qed

theorem registry_table_witness:
  "posixExtname ''/src/app.tsx'' = ''.tsx'' \<and>
   getLanguageForFile posixExtname ''/src/app.tsx'' = Some Ts \<and>
   posixExtname ''/src/.gitignore'' = [] \<and>
   getLanguageForFile posixExtname ''/src/.gitignore'' = None"
proof -
  have a: "posixExtname ''/src/app.tsx'' = ''.tsx''" by code_simp
  have b: "posixExtname ''/src/.gitignore'' = []" by code_simp
  from registry_table [of posixExtname "''/src/app.tsx''"]
    registry_table [of posixExtname "''/src/.gitignore''"] a b
  show ?thesis by simp
qed

text \<open>
  The claim as stated counts five tags; the table has six different ones.
\<close>

theorem registry_five_tags_counterexample:
  "\<not> (length (remdups (map fst SUPPORTED_LANGUAGES)) = 5)"
  by (simp add: SUPPORTED_LANGUAGES_def)

section \<open>Properties of the tree extraction engine\<close>

lemma recKey_matchRecord:
  "recKey (matchRecord extn path code m nm fn) = funcKey nm fn"
  by (simp add: recKey_def matchRecord_def funcKey_def Let_def)

lemma processMatch_cases:
  "processMatch extn path code st m = st \<or>
   (\<exists>fn nm. findCapture ''function'' m = Some fn \<and> findCapture ''function_name'' m = Some nm \<and>
      funcKey nm fn \<notin> processedFunctions st \<and>
      processMatch extn path code st m =
        \<lparr>processedFunctions = insert (funcKey nm fn) (processedFunctions st),
         functionsArr = functionsArr st @ [matchRecord extn path code m nm fn],
         documentedFunctions =
           (if isDocumented (matchRecord extn path code m nm fn)
            then documentedFunctions st @ [matchEntry (matchRecord extn path code m nm fn)]
            else documentedFunctions st)\<rparr>)"
  by (auto simp: processMatch_def Let_def split: option.splits)

lemma processMatch_inv:
  assumes "collectInv st"
  shows "collectInv (processMatch extn path code st m)"
proof -
  from assms have d: "distinct (map recKey (functionsArr st))"
    and sub: "\<And>x. x \<in> set (functionsArr st) \<Longrightarrow> recKey x \<in> processedFunctions st"
    by (auto simp: collectInv_def)
  from processMatch_cases [of extn path code st m] show ?thesis
  proof (elim disjE exE conjE)
    assume "processMatch extn path code st m = st"
    with assms show ?thesis by simp
  next
    fix fn nm
    assume fresh: "funcKey nm fn \<notin> processedFunctions st"
      and eq: "processMatch extn path code st m =
        \<lparr>processedFunctions = insert (funcKey nm fn) (processedFunctions st),
         functionsArr = functionsArr st @ [matchRecord extn path code m nm fn],
         documentedFunctions =
           (if isDocumented (matchRecord extn path code m nm fn)
            then documentedFunctions st @ [matchEntry (matchRecord extn path code m nm fn)]
            else documentedFunctions st)\<rparr>"
    from fresh sub have "funcKey nm fn \<notin> recKey ` set (functionsArr st)" by auto
    with d sub show ?thesis
      unfolding eq collectInv_def by (simp add: recKey_matchRecord image_subset_iff)
  qed
qed

lemma foldl_processMatch_inv:
  "collectInv st \<Longrightarrow> collectInv (foldl (processMatch extn path code) st ms)"
  by (induction ms arbitrary: st) (simp_all add: processMatch_inv)

lemma distinct_map_comp:
  "distinct (map (\<lambda>x. g (h x)) xs) \<Longrightarrow> distinct (map h xs)"
  by (induction xs) auto

lemma recKey_pair: "recKey f = (\<lambda>(n, l). n @ ''-'' @ showNat (nat l)) (Function.name f, startLine f)"
  by (simp add: recKey_def)

lemma processMatchesAndCollect_distinct:
  "distinct (map (\<lambda>f. (Function.name f, startLine f))
     (fst (processMatchesAndCollect extn matches path code ([], ds))))"
proof -
  let ?st0 = "\<lparr>processedFunctions = {}, functionsArr = [], documentedFunctions = ds\<rparr>"
  have "collectInv ?st0" by (simp add: collectInv_def)
  then have "collectInv (foldl (processMatch extn path code) ?st0 matches)"
    by (rule foldl_processMatch_inv)
  then have "distinct (map recKey (functionsArr (foldl (processMatch extn path code) ?st0 matches)))"
    by (simp add: collectInv_def)
  then have "distinct (map (\<lambda>f. (Function.name f, startLine f))
      (functionsArr (foldl (processMatch extn path code) ?st0 matches)))"
    unfolding recKey_pair by (rule distinct_map_comp)
  then show ?thesis by (simp add: processMatchesAndCollect_def Let_def)
qed

lemma processMatch_appends:
  "\<exists>new. functionsArr (processMatch extn path code st m) = functionsArr st @ new \<and>
     documentedFunctions (processMatch extn path code st m) =
       documentedFunctions st @ map matchEntry (filter isDocumented new)"
  using processMatch_cases [of extn path code st m]
  by (elim disjE exE conjE) (simp, simp)

lemma foldl_processMatch_appends:
  "\<exists>new. functionsArr (foldl (processMatch extn path code) st ms) = functionsArr st @ new \<and>
     documentedFunctions (foldl (processMatch extn path code) st ms) =
       documentedFunctions st @ map matchEntry (filter isDocumented new)"
proof (induction ms arbitrary: st)
  case Nil
  show ?case by simp
next
  case (Cons m ms)
  obtain n1 where n1: "functionsArr (processMatch extn path code st m) = functionsArr st @ n1"
    "documentedFunctions (processMatch extn path code st m) =
       documentedFunctions st @ map matchEntry (filter isDocumented n1)"
    using processMatch_appends by blast
  obtain n2 where n2:
    "functionsArr (foldl (processMatch extn path code) (processMatch extn path code st m) ms) =
       functionsArr (processMatch extn path code st m) @ n2"
    "documentedFunctions (foldl (processMatch extn path code) (processMatch extn path code st m) ms) =
       documentedFunctions (processMatch extn path code st m) @ map matchEntry (filter isDocumented n2)"
    using Cons.IH by blast
  show ?case
    by (rule exI [of _ "n1 @ n2"]) (simp add: n1 n2)
qed

lemma processMatchesAndCollect_entries:
  "snd (processMatchesAndCollect extn matches path code ([], ds)) =
     ds @ map matchEntry (filter isDocumented
            (fst (processMatchesAndCollect extn matches path code ([], ds))))"
  using foldl_processMatch_appends
    [of extn path code "\<lparr>processedFunctions = {}, functionsArr = [], documentedFunctions = ds\<rparr>" matches]
  by (auto simp: processMatchesAndCollect_def Let_def)

lemma processMatch_mono:
  "processedFunctions st \<subseteq> processedFunctions (processMatch extn path code st m)"
  using processMatch_cases [of extn path code st m] by auto

lemma processMatch_marks:
  assumes "findCapture ''function'' m = Some fn" "findCapture ''function_name'' m = Some nm"
  shows "funcKey nm fn \<in> processedFunctions (processMatch extn path code st m)"
  using assms by (simp add: processMatch_def Let_def)

lemma matchOf_funcKey:
  assumes "matchOf (nodeText (QueryCapture.node nm)) (int (startRow (QueryCapture.node fn))) m"
  shows "\<exists>fn' nm'. findCapture ''function'' m = Some fn' \<and> findCapture ''function_name'' m = Some nm' \<and>
           funcKey nm' fn' = funcKey nm fn"
  using assms by (auto simp: matchOf_def funcKey_def split: option.splits)

lemma foldl_processMatch_first:
  "f \<in> set (functionsArr (foldl (processMatch extn path code) st ms)) \<Longrightarrow>
   f \<in> set (functionsArr st) \<or>
   (\<exists>pre m post fn nm. ms = pre @ m # post \<and>
       findCapture ''function'' m = Some fn \<and> findCapture ''function_name'' m = Some nm \<and>
       f = matchRecord extn path code m nm fn \<and>
       funcKey nm fn \<notin> processedFunctions st \<and>
       (\<forall>m'\<in>set pre. \<not> matchOf (Function.name f) (startLine f) m'))"
proof (induction ms arbitrary: st)
  case Nil
  then show ?case by simp
next
  case (Cons m0 ms)
  let ?st1 = "processMatch extn path code st m0"
  from Cons.prems have "f \<in> set (functionsArr (foldl (processMatch extn path code) ?st1 ms))"
    by simp
  from Cons.IH [OF this] show ?case
  proof
    assume a: "f \<in> set (functionsArr ?st1)"
    from processMatch_cases [of extn path code st m0] show ?thesis
    proof (elim disjE exE conjE)
      assume "?st1 = st"
      with a show ?thesis by simp
    next
      fix fn nm
      assume fn: "findCapture ''function'' m0 = Some fn"
        and nm: "findCapture ''function_name'' m0 = Some nm"
        and fresh: "funcKey nm fn \<notin> processedFunctions st"
        and eq: "?st1 =
          \<lparr>processedFunctions = insert (funcKey nm fn) (processedFunctions st),
           functionsArr = functionsArr st @ [matchRecord extn path code m0 nm fn],
           documentedFunctions =
             (if isDocumented (matchRecord extn path code m0 nm fn)
              then documentedFunctions st @ [matchEntry (matchRecord extn path code m0 nm fn)]
              else documentedFunctions st)\<rparr>"
      from a eq have "f \<in> set (functionsArr st) \<or> f = matchRecord extn path code m0 nm fn"
        by auto
      then show ?thesis
      proof
        assume "f \<in> set (functionsArr st)"
        then show ?thesis by simp
      next
        assume f: "f = matchRecord extn path code m0 nm fn"
        have "m0 # ms = [] @ m0 # ms \<and>
              findCapture ''function'' m0 = Some fn \<and> findCapture ''function_name'' m0 = Some nm \<and>
              f = matchRecord extn path code m0 nm fn \<and>
              funcKey nm fn \<notin> processedFunctions st \<and>
              (\<forall>m'\<in>set []. \<not> matchOf (Function.name f) (startLine f) m')"
          using fn nm f fresh by simp
        then show ?thesis by blast
      qed
    qed
  next
    assume "\<exists>pre m post fn nm. ms = pre @ m # post \<and>
       findCapture ''function'' m = Some fn \<and> findCapture ''function_name'' m = Some nm \<and>
       f = matchRecord extn path code m nm fn \<and>
       funcKey nm fn \<notin> processedFunctions ?st1 \<and>
       (\<forall>m'\<in>set pre. \<not> matchOf (Function.name f) (startLine f) m')"
    then obtain pre m post fn nm where ms: "ms = pre @ m # post"
      and fn: "findCapture ''function'' m = Some fn"
      and nm: "findCapture ''function_name'' m = Some nm"
      and f: "f = matchRecord extn path code m nm fn"
      and fresh1: "funcKey nm fn \<notin> processedFunctions ?st1"
      and pre: "\<forall>m'\<in>set pre. \<not> matchOf (Function.name f) (startLine f) m'"
      by blast
    have fresh: "funcKey nm fn \<notin> processedFunctions st"
      using fresh1 processMatch_mono [of st extn path code m0] by auto
    have nf: "Function.name f = nodeText (QueryCapture.node nm)"
      "startLine f = int (startRow (QueryCapture.node fn))"
      using f by (simp_all add: matchRecord_def Let_def)
    have "\<not> matchOf (Function.name f) (startLine f) m0"
    proof
      assume "matchOf (Function.name f) (startLine f) m0"
      then have "matchOf (nodeText (QueryCapture.node nm))
                   (int (startRow (QueryCapture.node fn))) m0"
        by (simp add: nf)
      from matchOf_funcKey [OF this] obtain fn' nm' where
        "findCapture ''function'' m0 = Some fn'" "findCapture ''function_name'' m0 = Some nm'"
        "funcKey nm' fn' = funcKey nm fn" by blast
      then have "funcKey nm fn \<in> processedFunctions ?st1"
        using processMatch_marks [of m0 fn' nm' extn path code st] by simp
      with fresh1 show False by simp
    qed
    with pre have "\<forall>m'\<in>set (m0 # pre). \<not> matchOf (Function.name f) (startLine f) m'"
      by simp
    moreover have "m0 # ms = (m0 # pre) @ m # post" using ms by simp
    ultimately show ?thesis using fn nm f fresh by blast
  qed
qed

lemma tree_engine_first_match_wins:
  assumes "f \<in> set (fst (processMatchesAndCollect extn matches path code ([], ds)))"
  shows "\<exists>pre m post fn nm. matches = pre @ m # post \<and>
       findCapture ''function'' m = Some fn \<and> findCapture ''function_name'' m = Some nm \<and>
       f = matchRecord extn path code m nm fn \<and>
       matchOf (Function.name f) (startLine f) m \<and>
       (\<forall>m'\<in>set pre. \<not> matchOf (Function.name f) (startLine f) m')"
proof -
  from assms have "f \<in> set (functionsArr (foldl (processMatch extn path code)
      \<lparr>processedFunctions = {}, functionsArr = [], documentedFunctions = ds\<rparr> matches))"
    by (simp add: processMatchesAndCollect_def Let_def)
  from foldl_processMatch_first [OF this]
  obtain pre m post fn nm where h: "matches = pre @ m # post"
    "findCapture ''function'' m = Some fn" "findCapture ''function_name'' m = Some nm"
    "f = matchRecord extn path code m nm fn"
    "\<forall>m'\<in>set pre. \<not> matchOf (Function.name f) (startLine f) m'"
    by auto
  moreover from h(2-4) have "matchOf (Function.name f) (startLine f) m"
    by (simp add: matchOf_def matchRecord_def Let_def)
  ultimately show ?thesis by blast
qed

lemma processMatch_indep:
  assumes "processedFunctions st = processedFunctions st'" "functionsArr st = functionsArr st'"
  shows "processedFunctions (processMatch extn path code st m) =
           processedFunctions (processMatch extn path code st' m) \<and>
         functionsArr (processMatch extn path code st m) =
           functionsArr (processMatch extn path code st' m)"
  using assms by (auto simp: processMatch_def Let_def split: option.splits)

lemma foldl_processMatch_indep:
  "processedFunctions st = processedFunctions st' \<Longrightarrow> functionsArr st = functionsArr st' \<Longrightarrow>
   functionsArr (foldl (processMatch extn path code) st ms) =
   functionsArr (foldl (processMatch extn path code) st' ms)"
proof (induction ms arbitrary: st st')
  case Nil
  then show ?case by simp
next
  case (Cons m ms)
  from processMatch_indep [OF Cons.prems, of extn path code m]
  have "functionsArr (foldl (processMatch extn path code) (processMatch extn path code st m) ms) =
        functionsArr (foldl (processMatch extn path code) (processMatch extn path code st' m) ms)"
    by (intro Cons.IH) simp_all
  then show ?case by simp
qed


lemma collect_append:
  "\<exists>new. fst (processMatchesAndCollect extn (xs @ rest) path code ([], ds)) =
          fst (processMatchesAndCollect extn xs path code ([], [])) @ new"
proof -
  let ?st = "\<lambda>d. \<lparr>processedFunctions = {}, functionsArr = [], documentedFunctions = d\<rparr>"
  obtain new where "functionsArr (foldl (processMatch extn path code)
        (foldl (processMatch extn path code) (?st ds) xs) rest) =
      functionsArr (foldl (processMatch extn path code) (?st ds) xs) @ new"
    using foldl_processMatch_appends by blast
  moreover have "functionsArr (foldl (processMatch extn path code) (?st ds) xs) =
      functionsArr (foldl (processMatch extn path code) (?st []) xs)"
    by (rule foldl_processMatch_indep) simp_all
  ultimately show ?thesis
    by (simp add: processMatchesAndCollect_def Let_def)
qed

lemma unique_by_key:
  assumes "distinct (map g (pre @ x # post))"
  shows "filter (\<lambda>y. g y = g x) (pre @ x # post) = [x]"
proof -
  from assms have "g x \<notin> g ` set pre" "g x \<notin> g ` set post" by auto
  then have "\<And>y. y \<in> set pre \<Longrightarrow> g y \<noteq> g x" "\<And>y. y \<in> set post \<Longrightarrow> g y \<noteq> g x"
    by (metis imageI)+
  then have "filter (\<lambda>y. g y = g x) pre = []" "filter (\<lambda>y. g y = g x) post = []"
    by (simp_all add: filter_empty_conv)
  then show ?thesis by simp
qed

lemma first_matches_decide:
  assumes "fst (processMatchesAndCollect extn xs path code ([], [])) = pre @ b # post"
  shows "filter (\<lambda>f. (Function.name f, startLine f) = (Function.name b, startLine b))
           (fst (processMatchesAndCollect extn (xs @ rest) path code ([], ds))) = [b]"
proof -
  obtain new where n: "fst (processMatchesAndCollect extn (xs @ rest) path code ([], ds)) =
      pre @ b # (post @ new)"
    using collect_append [of extn xs rest path code ds] assms by auto
  have "distinct (map (\<lambda>f. (Function.name f, startLine f)) (pre @ b # (post @ new)))"
    using processMatchesAndCollect_distinct [of extn "xs @ rest" path code ds] n by simp
  from unique_by_key [OF this] n show ?thesis by simp
qed

text \<open>
  Claim C10 at a class whose method \<open>inc\<close> has a block comment and whose method \<open>twice\<close>
  is preceded only by a line comment. The alternative of the Java query for documented
  methods takes a block comment and a later method among its siblings, not only the
  method next to it, so the query pairs the block comment of \<open>inc\<close> with \<open>twice\<close>.
  Whatever matches follow these, \<open>twice\<close> is emitted once, as documented, with the
  comment of \<open>inc\<close> as its cleaned text.
\<close>

theorem java_sibling_comment_marks_documented:
  "list_all (producedBy Java) javaSiblingMatches \<and>
   map (\<lambda>f. (isDocumented f, cleanedDoc f))
     (filter (\<lambda>f. Function.name f = ''twice'' \<and> startLine f = 4)
        (fst (processMatchesAndCollect posixExtname (javaSiblingMatches @ rest) ''/src/Util.java''
                javaSiblingSource ([], ds)))) =
     [(True, Some ''/** Adds one. */'')]"
proof -
  let ?a = "matchRecord posixExtname ''/src/Util.java'' javaSiblingSource (javaSiblingMatches ! 0)
      (capture ''function_name'' ''identifier'' ''inc'' 2 2)
      (capture ''function'' ''method_declaration'' ''int inc(int x) { return x + 1; }'' 2 2)"
  let ?b = "matchRecord posixExtname ''/src/Util.java'' javaSiblingSource (javaSiblingMatches ! 1)
      (capture ''function_name'' ''identifier'' ''twice'' 4 4)
      (capture ''function'' ''method_declaration'' ''int twice(int x) { return 2 * x; }'' 4 4)"
  have q: "list_all (producedBy Java) javaSiblingMatches" by code_simp
  have e: "fst (processMatchesAndCollect posixExtname javaSiblingMatches ''/src/Util.java''
      javaSiblingSource ([], [])) = [?a] @ ?b # []"
    by code_simp
  have pb: "Function.name ?b = ''twice''" "startLine ?b = 4" "isDocumented ?b"
    "cleanedDoc ?b = Some ''/** Adds one. */''"
    by code_simp+
  have "filter (\<lambda>f. (Function.name f, startLine f) = (Function.name ?b, startLine ?b))
      (fst (processMatchesAndCollect posixExtname (javaSiblingMatches @ rest) ''/src/Util.java''
              javaSiblingSource ([], ds))) = [?b]"
    by (rule first_matches_decide [OF e])
  then have "filter (\<lambda>f. Function.name f = ''twice'' \<and> startLine f = 4)
      (fst (processMatchesAndCollect posixExtname (javaSiblingMatches @ rest) ''/src/Util.java''
              javaSiblingSource ([], ds))) = [?b]"
    by (simp only: pb prod.inject)
  with q pb show ?thesis by simp
qed

theorem java_sibling_comment_marks_documented_witness:
  "list_all (producedBy Java) javaSiblingMatches \<and>
   map (\<lambda>f. (Function.name f, startLine f, isDocumented f, cleanedDoc f))
     (fst (processMatchesAndCollect posixExtname javaSiblingMatches ''/src/Util.java''
             javaSiblingSource ([], []))) =
     [(''inc'', 2, True, Some ''/** Adds one. */''), (''twice'', 4, True, Some ''/** Adds one. */'')] \<and>
   map (\<lambda>f. (isDocumented f, cleanedDoc f))
     (filter (\<lambda>f. Function.name f = ''twice'' \<and> startLine f = 4)
        (fst (processMatchesAndCollect posixExtname javaSiblingMatches ''/src/Util.java''
                javaSiblingSource ([], [])))) =
     [(True, Some ''/** Adds one. */'')]"
proof -
  have "map (\<lambda>f. (Function.name f, startLine f, isDocumented f, cleanedDoc f))
     (fst (processMatchesAndCollect posixExtname javaSiblingMatches ''/src/Util.java''
             javaSiblingSource ([], []))) =
     [(''inc'', 2, True, Some ''/** Adds one. */''), (''twice'', 4, True, Some ''/** Adds one. */'')]"
    by code_simp
  with java_sibling_comment_marks_documented [of "[]" "[]"] show ?thesis by simp
qed

text \<open>
  Claim C4 at a function without a docstring whose third statement is a string literal
  in triple double quotes. The alternative of the Python query for documented functions
  takes a string statement anywhere in the body, so the query captures the late string,
  and whatever matches follow, the function is emitted once, as documented, with that
  string as its cleaned text. A function whose first statement is a string literal in
  plain double quotes is emitted once, as undocumented: the rule of the classifier asks
  for three double quotes.
\<close>

theorem python_late_string_marks_documented:
  "list_all (producedBy Python) lateStringMatches \<and>
   map (\<lambda>f. (isDocumented f, cleanedDoc f))
     (filter (\<lambda>f. Function.name f = ''add'' \<and> startLine f = 0)
        (fst (processMatchesAndCollect posixExtname (lateStringMatches @ rest) ''/src/calc.py''
                lateStringSource ([], ds)))) =
     [(True, Some lateString)] \<and>
   map (\<lambda>f. (isDocumented f, cleanedDoc f))
     (filter (\<lambda>f. Function.name f = ''add'' \<and> startLine f = 0)
        (fst (processMatchesAndCollect posixExtname
                (pythonMatches (quoted ''Adds two numbers.'') @ rest) ''/src/calc.py''
                (pythonSource (quoted ''Adds two numbers.'')) ([], ds)))) =
     [(False, None)]"
proof -
  let ?b = "matchRecord posixExtname ''/src/calc.py'' lateStringSource (lateStringMatches ! 0)
      (capture ''function_name'' ''identifier'' ''add'' 0 0)
      (capture ''function'' ''function_definition'' lateStringSource 0 3)"
  let ?c = "matchRecord posixExtname ''/src/calc.py'' (pythonSource (quoted ''Adds two numbers.''))
      (pythonMatches (quoted ''Adds two numbers.'') ! 0)
      (capture ''function_name'' ''identifier'' ''add'' 0 0)
      (capture ''function'' ''function_definition'' (pythonSource (quoted ''Adds two numbers.'')) 0 2)"
  have q: "list_all (producedBy Python) lateStringMatches" by code_simp
  have e: "fst (processMatchesAndCollect posixExtname lateStringMatches ''/src/calc.py''
      lateStringSource ([], [])) = [] @ ?b # []"
    by code_simp
  have pb: "Function.name ?b = ''add''" "startLine ?b = 0" "isDocumented ?b"
    "cleanedDoc ?b = Some lateString"
    by code_simp+
  have e2: "fst (processMatchesAndCollect posixExtname (pythonMatches (quoted ''Adds two numbers.''))
      ''/src/calc.py'' (pythonSource (quoted ''Adds two numbers.'')) ([], [])) = [] @ ?c # []"
    by code_simp
  have pc: "Function.name ?c = ''add''" "startLine ?c = 0" "\<not> isDocumented ?c"
    "cleanedDoc ?c = None"
    by code_simp+
  have "filter (\<lambda>f. (Function.name f, startLine f) = (Function.name ?b, startLine ?b))
      (fst (processMatchesAndCollect posixExtname (lateStringMatches @ rest) ''/src/calc.py''
              lateStringSource ([], ds))) = [?b]"
    by (rule first_matches_decide [OF e])
  then have b: "filter (\<lambda>f. Function.name f = ''add'' \<and> startLine f = 0)
      (fst (processMatchesAndCollect posixExtname (lateStringMatches @ rest) ''/src/calc.py''
              lateStringSource ([], ds))) = [?b]"
    by (simp only: pb prod.inject)
  have "filter (\<lambda>f. (Function.name f, startLine f) = (Function.name ?c, startLine ?c))
      (fst (processMatchesAndCollect posixExtname (pythonMatches (quoted ''Adds two numbers.'') @ rest)
              ''/src/calc.py'' (pythonSource (quoted ''Adds two numbers.'')) ([], ds))) = [?c]"
    by (rule first_matches_decide [OF e2])
  then have c: "filter (\<lambda>f. Function.name f = ''add'' \<and> startLine f = 0)
      (fst (processMatchesAndCollect posixExtname (pythonMatches (quoted ''Adds two numbers.'') @ rest)
              ''/src/calc.py'' (pythonSource (quoted ''Adds two numbers.'')) ([], ds))) = [?c]"
    by (simp only: pc prod.inject)
  from q b c pb pc show ?thesis by simp
qed

theorem python_late_string_marks_documented_witness:
  "list_all (producedBy Python) lateStringMatches \<and>
   map (\<lambda>f. (Function.name f, startLine f, isDocumented f, cleanedDoc f))
     (fst (processMatchesAndCollect posixExtname lateStringMatches ''/src/calc.py''
             lateStringSource ([], []))) =
     [(''add'', 0, True, Some lateString)] \<and>
   map (\<lambda>f. (isDocumented f, cleanedDoc f))
     (filter (\<lambda>f. Function.name f = ''add'' \<and> startLine f = 0)
        (fst (processMatchesAndCollect posixExtname lateStringMatches ''/src/calc.py''
                lateStringSource ([], [])))) =
     [(True, Some lateString)]"
proof -
  have "map (\<lambda>f. (Function.name f, startLine f, isDocumented f, cleanedDoc f))
     (fst (processMatchesAndCollect posixExtname lateStringMatches ''/src/calc.py''
             lateStringSource ([], []))) =
     [(''add'', 0, True, Some lateString)]"
    by code_simp
  with python_late_string_marks_documented [of "[]" "[]"] show ?thesis by simp
qed

section \<open>Properties of the fallback extraction engine\<close>

lemma appended_refl: "appended a a"
  by (simp add: appended_def)

lemma appended_trans: "appended a b \<Longrightarrow> appended b c \<Longrightarrow> appended a c"
proof -
  assume "appended a b" and "appended b c"
  then obtain n1 n2 where
    "fst b = fst a @ n1" "snd b = snd a @ map matchEntry (filter isDocumented n1)"
    "fst c = fst b @ n2" "snd c = snd b @ map matchEntry (filter isDocumented n2)"
    unfolding appended_def by blast
  then show ?thesis
    unfolding appended_def by (intro exI [of _ "n1 @ n2"]) simp
qed

lemma scanUp_nonempty:
  "scanUp lines cur docLines ic = Inr out \<Longrightarrow> [] \<notin> set docLines \<Longrightarrow> [] \<notin> set out"
proof (induction lines cur docLines ic rule: scanUp.induct)
  case (1 lines currentLine docLines insideComment)
  show ?case
    using "1.prems" "1.IH"
    by (subst (asm) scanUp.simps) (auto simp: Let_def split: if_splits)
qed

lemma joinLines_nonempty: "xs \<noteq> [] \<Longrightarrow> [] \<notin> set xs \<Longrightarrow> joinLines xs \<noteq> []"
  by (cases xs rule: joinLines.cases) auto

lemma getJSDocComment_text:
  assumes "getJSDocComment loc code = Inr d"
  shows "hasDoc d \<longleftrightarrow> (docText d \<noteq> None \<and> docText d \<noteq> Some [])"
proof (cases loc)
  case None
  with assms show ?thesis by (auto simp: getJSDocComment_def)
next
  case (Some p)
  obtain s e where p: "p = (s, e)" by (cases p)
  show ?thesis
  proof (cases "scanUp (splitLines code) (s - 1 - 1) [] False")
    case (Inl err)
    with assms Some p show ?thesis by (simp add: getJSDocComment_def Let_def)
  next
    case (Inr out)
    then have "[] \<notin> set out" by (rule scanUp_nonempty) simp
    with assms Some p Inr show ?thesis
      by (auto simp: getJSDocComment_def Let_def joinLines_nonempty split: if_splits)
  qed
qed

lemma visitFunction_appended:
  "appended arrays (snd (visitFunction code path n loc fname arrays))"
proof (cases loc)
  case None
  then show ?thesis by (simp add: visitFunction_def appended_refl)
next
  case (Some p)
  obtain s e where p: "p = (s, e)" by (cases p)
  show ?thesis
  proof (cases "getJSDocComment (Some (s, e)) code")
    case (Inl err)
    with Some p show ?thesis by (simp add: visitFunction_def appended_refl)
  next
    case (Inr d)
    from getJSDocComment_text [OF Inr]
    have h: "hasDoc d \<longleftrightarrow> (docText d \<noteq> None \<and> docText d \<noteq> Some [])" .
    show ?thesis
      unfolding appended_def
      apply (rule exI [of _ "[nodeRecord code path n fname (s - 1) (e - 1) d]"])
      using Some p Inr h
      apply (auto simp: visitFunction_def Let_def nodeRecord_def nodeEntry_def matchEntry_def)
      done
  qed
qed

lemma traverse_appended:
  "appended arrays (snd (traverse code path v arrays))"
  "appended arrays (snd (traverseProps code path props arrays))"
  "appended arrays (snd (traverseItems code path items arrays))"
proof (induction code path v arrays and code path props arrays and code path items arrays
       rule: traverse_traverseProps_traverseItems.induct)
  case (1 code path loc props arrays)
  show ?case
  proof (cases "isNamedFunction (JObj loc props)")
    case False
    with "1.IH"(2) show ?thesis by simp
  next
    case True
    show ?thesis
    proof (cases "functionNameOf (JObj loc props)")
      case None
      with True show ?thesis by (simp add: appended_refl)
    next
      case (Some fname)
      obtain r a where v: "visitFunction code path (JObj loc props) loc fname arrays = (r, a)"
        by (cases "visitFunction code path (JObj loc props) loc fname arrays")
      have av: "appended arrays a"
        using visitFunction_appended [of arrays code path "JObj loc props" loc fname] v by simp
      show ?thesis
      proof (cases r)
        case (Some err)
        with True \<open>functionNameOf (JObj loc props) = Some fname\<close> v av show ?thesis by simp
      next
        case None
        have "appended a (snd (traverseProps code path props a))"
          using "1.IH"(1) True \<open>functionNameOf (JObj loc props) = Some fname\<close> v None
          by simp
        with av have "appended arrays (snd (traverseProps code path props a))"
          by (rule appended_trans)
        with True \<open>functionNameOf (JObj loc props) = Some fname\<close> v None show ?thesis by simp
      qed
    qed
  qed
next
  case (2 code path items arrays)
  then show ?case by simp
next
  case (8 code path k v props arrays)
  show ?case
  proof (cases "isObject v")
    case False
    with "8.IH"(3) show ?thesis by simp
  next
    case True
    obtain r a where t: "traverse code path v arrays = (r, a)"
      by (cases "traverse code path v arrays")
    have av: "appended arrays a" using "8.IH"(1) [OF True] t by simp
    show ?thesis
    proof (cases r)
      case (Some err)
      with True t av show ?thesis by simp
    next
      case None
      have "appended a (snd (traverseProps code path props a))"
        using "8.IH"(2) True t None by simp
      with av have "appended arrays (snd (traverseProps code path props a))"
        by (rule appended_trans)
      with True t None show ?thesis by simp
    qed
  qed
next
  case (10 code path v items arrays)
  show ?case
  proof (cases "isObject v")
    case False
    with "10.IH"(3) show ?thesis by simp
  next
    case True
    obtain r a where t: "traverse code path v arrays = (r, a)"
      by (cases "traverse code path v arrays")
    have av: "appended arrays a" using "10.IH"(1) [OF True] t by simp
    show ?thesis
    proof (cases r)
      case (Some err)
      with True t av show ?thesis by simp
    next
      case None
      have "appended a (snd (traverseItems code path items a))"
        using "10.IH"(2) True t None by simp
      with av have "appended arrays (snd (traverseItems code path items a))"
        by (rule appended_trans)
      with True t None show ?thesis by simp
    qed
  qed
qed (simp_all add: appended_refl)

lemma shiftArrays_simps [simp]:
  "shiftArrays (fs, ds) (r, n, es) = (r, fs @ n, ds @ es)"
  by (simp add: shiftArrays_def)






text \<open>
  Claim C1 at the input \<open>const f = function f() {}\<close>. The fallback engine emits two
  records for it, one for the declarator and one for the function expression, with the
  same name and the same start line. The tree engine keeps one record for each name and
  start line, built from the first match (\<open>processMatchesAndCollect_distinct\<close>,
  \<open>tree_engine_first_match_wins\<close>); the walk of the fallback engine has no such check.
\<close>

theorem fallback_emits_same_key_twice:
  "map (\<lambda>f. (Function.name f, startLine f))
     (fst (snd (processJavaScriptAST namedExprAst namedExprSource ''/src/f.js'' ([], [])))) =
   [(''f'', 0), (''f'', 0)]"
  by code_simp

text \<open>
  Claim C5 at two inputs. The upward scan stops at a line that is neither a continuation
  line nor the closer, without having reached the opener \<open>/**\<close>, and the function is
  still marked documented, with the lines that start with \<open>*\<close> as its text: below the
  continuation line of a product, and below a block comment opened by \<open>/*\<close>.
\<close>

theorem product_line_marked_documented:
  "getJSDocComment (Some (3, 3)) (joinLines productLines) =
     Inr \<lparr>hasDoc = True, docText = Some ''* 2''\<rparr> \<and>
   getJSDocComment (Some (4, 4)) (joinLines plainBlockLines) =
     Inr \<lparr>hasDoc = True, docText = Some (joinLines [''* plain'', ''*/''])\<rparr>"
  by code_simp

text \<open>
  Claim C6, as amended. For the five lines of the claim, with the function on the last
  one, the fallback engine emits the function \<open>double\<close> as documented, and its cleaned
  text is the three comment lines, each of them trimmed, joined by newlines; the entry
  appended for it carries the same text.
\<close>

theorem double_documented_trimmed:
  "map (\<lambda>f. (Function.name f, startLine f, isDocumented f, cleanedDoc f))
     (fst (snd (processJavaScriptAST doubleAst (joinLines doubleLines) ''/src/double.js'' ([], [])))) =
   [(''double'', 4, True, Some (joinLines (map trim [''/**'', '' * Doubles x'', '' */''])))] \<and>
   joinLines (map trim [''/**'', '' * Doubles x'', '' */'']) = joinLines [''/**'', ''* Doubles x'', ''*/''] \<and>
   snd (snd (processJavaScriptAST doubleAst (joinLines doubleLines) ''/src/double.js'' ([], []))) =
   [\<lparr>DocumentedFunction.name = ''double'',
     documentation = Some (joinLines [''/**'', ''* Doubles x'', ''*/'']),
     filePath = ''/src/double.js''\<rparr>]"
  by code_simp

text \<open>
  The claim as stated takes the three lines as they are in the source; the cleaned text
  has lost the space in front of the second and third.
\<close>

theorem double_untrimmed_counterexample:
  "map cleanedDoc
     (fst (snd (processJavaScriptAST doubleAst (joinLines doubleLines) ''/src/double.js'' ([], [])))) \<noteq>
   [Some (joinLines [''/**'', '' * Doubles x'', '' */''])]"
  by code_simp

text \<open>
  Claim C2 at the input \<open>const f = function f() {}\<close> below a doc block. The fallback
  engine appends two entries for the one documented function, one for the declarator
  and one for the function expression, with the same name, text and path.
\<close>

theorem fallback_appends_entry_twice:
  "snd (snd (processJavaScriptAST jsdocExprAst jsdocExprSource ''/src/f.js'' ([], []))) =
     [\<lparr>DocumentedFunction.name = ''f'', documentation = Some ''/** Does f. */'',
       filePath = ''/src/f.js''\<rparr>,
      \<lparr>DocumentedFunction.name = ''f'', documentation = Some ''/** Does f. */'',
       filePath = ''/src/f.js''\<rparr>] \<and>
   map (\<lambda>f. (Function.name f, startLine f, isDocumented f))
     (fst (snd (processJavaScriptAST jsdocExprAst jsdocExprSource ''/src/f.js'' ([], [])))) =
     [(''f'', 1, True), (''f'', 1, True)]"
  by code_simp

text \<open>
  In both engines the entries appended while a file is processed are, in order, one
  entry for each emitted record that is documented. The tree engine emits one record
  for each name and start line, so it appends one entry for a function that several
  alternatives of the query match; the fallback engine emits one record for each
  qualifying node.
\<close>

lemma entries_follow_records:
  "snd (processMatchesAndCollect extn matches path code ([], ds)) =
     ds @ map matchEntry (filter isDocumented
            (fst (processMatchesAndCollect extn matches path code ([], ds)))) \<and>
   distinct (map (\<lambda>f. (Function.name f, startLine f))
     (fst (processMatchesAndCollect extn matches path code ([], ds)))) \<and>
   appended (fs, ds) (snd (processJavaScriptAST ast code path (fs, ds)))"
  using processMatchesAndCollect_entries [of extn matches path code ds]
    processMatchesAndCollect_distinct [of extn matches path code ds]
    traverse_appended(1) [of "(fs, ds)" code path ast]
  by (simp add: processJavaScriptAST_def)

section \<open>Properties of the per-file processing\<close>

lemma extend_simps [simp]:
  "extend st (x, s) =
     (x, st\<lparr>documented := documented st @ documented s, console := console st @ console s\<rparr>)"
  by (simp add: extend_def)











end
